theory Spec2Isabelle
  imports Complex_Main
begin

section \<open>FisheyeTextScene: a model of the rendering pipeline\<close>

text \<open>
  The development follows \<^verbatim>\<open>src/app/components/FisheyeTextScene.tsx\<close>.
  JavaScript and GLSL numbers are modelled as mathematical reals (no rounding,
  no NaN or infinity; the one place where the source can produce NaN, a
  remainder by zero, is an explicit \<open>None\<close>).  Strings are lists of 8-bit
  characters, read as the code units U+0000 to U+00FF.
\<close>

subsection \<open>Text layout: \<^verbatim>\<open>wrapText\<close> and \<^verbatim>\<open>edgeAlpha\<close>\<close>

text \<open>
  The class \<^verbatim>\<open>\s\<close> of the regular expression \<^verbatim>\<open>/\s+/\<close>, on these code units:
  space, tab, line feed, vertical tab, form feed, carriage return and the
  no-break space U+00A0.  Its other members (U+1680, U+2000 to U+200A, U+2028,
  U+2029, U+202F, U+205F, U+3000, U+FEFF) lie above U+00FF.
\<close>

definition is_ws :: "char \<Rightarrow> bool" where
  "is_ws c = (c = CHR '' '' \<or> c = CHR 0x09 \<or> c = CHR 0x0A \<or> c = CHR 0x0B \<or>
              c = CHR 0x0C \<or> c = CHR 0x0D \<or> c = CHR 0xA0)"

text \<open>
  \<^verbatim>\<open>t.split(/\s+/)\<close>: the pieces of \<open>t\<close> between maximal runs of whitespace.
  A leading or trailing run leaves an empty piece at that end, and the empty
  string splits into one empty piece.  The first argument is the piece being
  read.
\<close>

function split_ws :: "string \<Rightarrow> string \<Rightarrow> string list" where
  "split_ws cur [] = [cur]"
| "split_ws cur (c # cs) =
     (if is_ws c then cur # split_ws [] (dropWhile is_ws cs)
      else split_ws (cur @ [c]) cs)"
  by pat_completeness auto
termination
  by (relation "measure (\<lambda>(cur, s). length s)")
     (auto simp: less_Suc_eq_le length_dropWhile_le)

text \<open>
  One iteration of the loop of \<^verbatim>\<open>wrapText\<close> on the word \<open>w\<close>; the state is
  the pair of \<^verbatim>\<open>lines\<close> and \<^verbatim>\<open>line\<close>.  A JavaScript string is truthy exactly
  when it is not empty.
\<close>

definition wrap_step ::
  "(string \<Rightarrow> real) \<Rightarrow> real \<Rightarrow> string list \<times> string \<Rightarrow> string \<Rightarrow> string list \<times> string" where
  "wrap_step measureText maxWidth st w =
     (case st of (lines, line) \<Rightarrow>
        let test = (if line \<noteq> [] then line @ '' '' @ w else w) in
        if measureText test > maxWidth \<and> line \<noteq> []
        then (lines @ [line], w)
        else (lines, test))"

definition wrapText :: "(string \<Rightarrow> real) \<Rightarrow> string \<Rightarrow> real \<Rightarrow> string list" where
  "wrapText measureText t maxWidth =
     (case foldl (wrap_step measureText maxWidth) ([], []) (split_ws [] t) of
        (lines, line) \<Rightarrow> if line \<noteq> [] then lines @ [line] else lines)"

definition edgeAlpha :: "real \<Rightarrow> real \<Rightarrow> real \<Rightarrow> real" where
  "edgeAlpha y h fade =
     (let top = min 1 ((y - 0) / fade);
          bottom = min 1 ((h - y) / fade)
      in max 0 (min top bottom))"






subsection \<open>The fragment shader \<^verbatim>\<open>FS\<close>\<close>

type_synonym vec2 = "real \<times> real"

text \<open>
  The GLSL ES built-in functions the shader calls, with the defining equations
  of the GLSL ES 1.00 specification (section 8.3): \<^verbatim>\<open>clamp(x, lo, hi)\<close> is
  \<^verbatim>\<open>min(max(x, lo), hi)\<close>, \<^verbatim>\<open>mix(x, y, a)\<close> is \<^verbatim>\<open>x*(1-a) + y*a\<close>, and
  \<^verbatim>\<open>smoothstep(e0, e1, x)\<close> is \<^verbatim>\<open>t*t*(3 - 2*t)\<close> for
  \<^verbatim>\<open>t = clamp((x - e0)/(e1 - e0), 0, 1)\<close>.  The shader calls \<^verbatim>\<open>smoothstep\<close>
  with \<^verbatim>\<open>e0 > e1\<close>; the model evaluates the same equations there.
\<close>

definition clamp :: "real \<Rightarrow> real \<Rightarrow> real \<Rightarrow> real" where
  "clamp x lo hi = min (max x lo) hi"

definition mix :: "real \<Rightarrow> real \<Rightarrow> real \<Rightarrow> real" where
  "mix x y a = x * (1 - a) + y * a"

definition smoothstep :: "real \<Rightarrow> real \<Rightarrow> real \<Rightarrow> real" where
  "smoothstep edge0 edge1 x =
     (let t = clamp ((x - edge0) / (edge1 - edge0)) 0 1 in t * t * (3 - 2 * t))"

definition dot :: "vec2 \<Rightarrow> vec2 \<Rightarrow> real" where
  "dot a b = fst a * fst b + snd a * snd b"

text \<open>Lines 56 to 60 of the shader: \<^verbatim>\<open>centered\<close>, \<^verbatim>\<open>r2\<close>, \<^verbatim>\<open>f\<close>, \<^verbatim>\<open>distorted\<close>.\<close>

definition centered :: "vec2 \<Rightarrow> vec2" where
  "centered uv = (fst uv - 0.5, snd uv - 0.5)"

definition r2_of :: "vec2 \<Rightarrow> real" where
  "r2_of uv = dot (centered uv) (centered uv)"

definition f_of :: "real \<Rightarrow> real \<Rightarrow> vec2 \<Rightarrow> real" where
  "f_of uK uKcube uv = 1.0 + r2_of uv * (uK + uKcube * sqrt (r2_of uv))"

definition distorted :: "real \<Rightarrow> real \<Rightarrow> vec2 \<Rightarrow> vec2" where
  "distorted uK uKcube uv =
     (f_of uK uKcube uv * fst (centered uv) + 0.5, f_of uK uKcube uv * snd (centered uv) + 0.5)"

text \<open>Lines 68 and 69: the factor \<^verbatim>\<open>mix(0.85, 1.0, smoothstep(0.9, 0.2, r2))\<close>.\<close>

definition vignette_factor :: "real \<Rightarrow> real" where
  "vignette_factor r2 = mix 0.85 1.0 (smoothstep 0.9 0.2 r2)"




subsection \<open>The host: WebGL objects, canvases, frame requests\<close>

datatype error = Error string

datatype shader_type = VERTEX_SHADER | FRAGMENT_SHADER

text \<open>One \<^verbatim>\<open>fillText(line, x, y)\<close> under \<^verbatim>\<open>globalAlpha = a\<close>.\<close>

datatype draw = FillText string real real real

primrec draw_y :: "draw \<Rightarrow> real" where
  "draw_y (FillText l x y a) = y"

text \<open>
  What a canvas shows: nothing, or one composed frame (the gradient and the
  highlight for a surface of the given width and height, then the text
  draws in order).
\<close>

datatype bitmap = Blank | Frame nat nat "draw list"

text \<open>
  A canvas element.  By the HTML standard (the canvas element, its
  \<^verbatim>\<open>width\<close> and \<^verbatim>\<open>height\<close> attributes) an assignment to either
  attribute, also of the value it already has, replaces the bitmap by a cleared
  one and resets the rendering context; \<open>resets\<close> counts these.
\<close>

record canvas =
  cwidth :: nat
  cheight :: nat
  bitmap :: bitmap
  resets :: nat

definition set_width :: "nat \<Rightarrow> canvas \<Rightarrow> canvas" where
  "set_width w c = c\<lparr>cwidth := w, bitmap := Blank, resets := Suc (resets c)\<rparr>"

definition set_height :: "nat \<Rightarrow> canvas \<Rightarrow> canvas" where
  "set_height h c = c\<lparr>cheight := h, bitmap := Blank, resets := Suc (resets c)\<rparr>"

text \<open>
  The WebGL context: the objects that are allocated (by name), the program in
  use, the uniforms and viewport the scene sets, the image last uploaded
  to the bound texture, and the number of draw calls.
\<close>

record gl_state =
  shaders :: "nat list"
  programs :: "nat list"
  buffers :: "nat list"
  textures :: "nat list"
  fresh :: nat
  current_program :: "nat option"
  uniform_K :: real
  uniform_Kcube :: real
  uniform_Resolution :: "nat \<times> nat"
  viewport :: "nat \<times> nat"
  tex_image :: bitmap
  draw_calls :: nat

text \<open>
  The browser as the effect sees it: whether \<^verbatim>\<open>getContext("webgl")\<close> and
  \<^verbatim>\<open>getContext("2d")\<close> return a context, whether shader and program objects
  can be created, compiled and linked, the info logs, the window, the font
  metrics (\<^verbatim>\<open>measureText\<close>, by font size in pixels), and
  \<^verbatim>\<open>performance.now()\<close> when the effect runs.
\<close>

record env =
  webgl_available :: bool
  ctx2d_available :: bool
  shader_ok :: "shader_type \<Rightarrow> bool"
  compile_ok :: "shader_type \<Rightarrow> bool"
  shader_log :: "shader_type \<Rightarrow> string"
  program_ok :: bool
  link_ok :: bool
  program_log :: string
  innerWidth :: nat
  innerHeight :: nat
  devicePixelRatio :: real
  font_measure :: "int \<Rightarrow> string \<Rightarrow> real"
  now0 :: real

text \<open>
  What outlives a call of the effect: the context, the pending
  \<^verbatim>\<open>requestAnimationFrame\<close> requests and the number of \<^verbatim>\<open>resize\<close> listeners
  the effect has attached to the window.
\<close>

record host =
  gl :: gl_state
  frame_requests :: "nat list"
  next_request :: nat
  resize_listeners :: nat

text \<open>The component's properties.\<close>

record props =
  prop_text :: string
  prop_speed :: real
  prop_k :: real
  prop_kcube :: real

text \<open>The variables of the effect's closure.\<close>

record scene =
  canvas :: canvas
  off :: canvas
  offCtx :: bool
  program :: nat
  vbo :: nat
  tex :: nat
  raf :: nat
  start :: real
  scroll :: real

subsection \<open>\<^verbatim>\<open>createShader\<close> and \<^verbatim>\<open>createProgram\<close>\<close>

text \<open>
  A \<^verbatim>\<open>throw\<close> is the left injection; the context is returned in both cases,
  since what was allocated before the exception stays allocated.
\<close>

definition createShader :: "env \<Rightarrow> shader_type \<Rightarrow> gl_state \<Rightarrow> (error + nat) \<times> gl_state" where
  "createShader e ty g =
     (if \<not> shader_ok e ty then (Inl (Error ''Failed to create shader''), g)
      else
        let shader = fresh g;
            g1 = g\<lparr>shaders := shader # shaders g, fresh := Suc shader\<rparr>
        in if \<not> compile_ok e ty
           then (Inl (Error (''Shader compile failed: '' @ shader_log e ty)),
                 g1\<lparr>shaders := remove1 shader (shaders g1)\<rparr>)
           else (Inr shader, g1))"

definition createProgram :: "env \<Rightarrow> gl_state \<Rightarrow> (error + nat) \<times> gl_state" where
  "createProgram e g =
     (case createShader e VERTEX_SHADER g of
        (Inl err, g1) \<Rightarrow> (Inl err, g1)
      | (Inr vs, g1) \<Rightarrow>
          (case createShader e FRAGMENT_SHADER g1 of
             (Inl err, g2) \<Rightarrow> (Inl err, g2)
           | (Inr fs, g2) \<Rightarrow>
               if \<not> program_ok e then (Inl (Error ''Failed to create program''), g2)
               else
                 let pr = fresh g2;
                     g3 = g2\<lparr>programs := pr # programs g2, fresh := Suc pr\<rparr>
                 in if \<not> link_ok e
                    then (Inl (Error (''Program link failed: '' @ program_log e)),
                          g3\<lparr>programs := remove1 pr (programs g3)\<rparr>)
                    else (Inr pr, g3)))"

subsection \<open>\<^verbatim>\<open>resize\<close>\<close>

text \<open>
  \<^verbatim>\<open>window.devicePixelRatio || 1\<close> is 1 when the ratio is 0.  The visible canvas
  is assigned only when a dimension differs; the offscreen canvas is assigned
  on every call.
\<close>

definition resize :: "env \<Rightarrow> scene \<times> host \<Rightarrow> scene \<times> host" where
  "resize e sh =
     (case sh of (s, hst) \<Rightarrow>
        let dpr = min (if devicePixelRatio e = 0 then 1 else devicePixelRatio e) 2;
            w = nat \<lfloor>real (innerWidth e) * dpr\<rfloor>;
            h = nat \<lfloor>real (innerHeight e) * dpr\<rfloor>;
            c = (if cwidth (canvas s) \<noteq> w \<or> cheight (canvas s) \<noteq> h
                 then set_height h (set_width w (canvas s)) else canvas s);
            g = (gl hst)\<lparr>viewport := (cwidth c, cheight c),
                           uniform_Resolution := (cwidth c, cheight c)\<rparr>
        in (s\<lparr>canvas := c, off := set_height h (set_width w (off s))\<rparr>, hst\<lparr>gl := g\<rparr>))"

subsection \<open>\<^verbatim>\<open>drawOffscreen\<close>\<close>

text \<open>
  The remainder \<^verbatim>\<open>x % y\<close> of two numbers: \<^verbatim>\<open>x - y * q\<close> for the quotient
  \<^verbatim>\<open>x / y\<close> truncated towards zero, and NaN (here \<open>None\<close>) for \<^verbatim>\<open>y = 0\<close>.
\<close>

definition js_trunc :: "real \<Rightarrow> int" where
  "js_trunc x = (if x < 0 then \<lceil>x\<rceil> else \<lfloor>x\<rfloor>)"

definition js_rem :: "real \<Rightarrow> real \<Rightarrow> real option" where
  "js_rem x y = (if y = 0 then None else Some (x - y * of_int (js_trunc (x / y))))"

definition isMobile :: "env \<Rightarrow> bool" where
  "isMobile e = (innerWidth e < 768)"

definition fontPx :: "env \<Rightarrow> nat \<Rightarrow> int" where
  "fontPx e h = max 16 \<lfloor>if isMobile e then real h * 0.04 else real h * 0.05\<rfloor>"

definition maxLineWidth :: "env \<Rightarrow> nat \<Rightarrow> int" where
  "maxLineWidth e w = \<lfloor>if isMobile e then real w * 0.8 else real w * 0.65\<rfloor>"

definition lineHeight :: "env \<Rightarrow> nat \<Rightarrow> int" where
  "lineHeight e h = \<lfloor>real_of_int (fontPx e h) * 1.25\<rfloor>"

definition layout_lines :: "env \<Rightarrow> props \<Rightarrow> nat \<Rightarrow> nat \<Rightarrow> string list" where
  "layout_lines e p w h =
     wrapText (font_measure e (fontPx e h)) (prop_text p) (real_of_int (maxLineWidth e w))"

definition blockHeight :: "nat \<Rightarrow> int \<Rightarrow> nat \<Rightarrow> real" where
  "blockHeight n lh h = real n * real_of_int lh + real h * 0.2"

definition baseY :: "nat \<Rightarrow> real \<Rightarrow> real \<Rightarrow> real option" where
  "baseY h bh scrl =
     (let bottomMargin = real h * 0.10 in
      case js_rem scrl bh of None \<Rightarrow> None | Some r \<Rightarrow> Some (real h - bottomMargin - r))"

text \<open>
  The inner loop over the lines, from index \<open>i\<close> on: a line whose alpha is not
  positive is skipped.
\<close>

primrec draw_lines :: "real \<Rightarrow> real \<Rightarrow> int \<Rightarrow> nat \<Rightarrow> nat \<Rightarrow> string list \<Rightarrow> draw list" where
  "draw_lines lx y lh h i [] = []"
| "draw_lines lx y lh h i (l # ls) =
     (let ly = y + real i * real_of_int lh;
          a = edgeAlpha ly (real h) (real_of_int lh * 2)
      in (if a \<le> 0 then [] else [FillText l lx ly a]) @ draw_lines lx y lh h (Suc i) ls)"

text \<open>
  The two passes, \<^verbatim>\<open>pass = -1\<close> then \<^verbatim>\<open>pass = 0\<close>.  With a NaN base
  position (a block height of 0) every \<^verbatim>\<open>fillText\<close> has a NaN coordinate, and
  the canvas ignores such a call.
\<close>

definition text_draws :: "string list \<Rightarrow> int \<Rightarrow> nat \<Rightarrow> nat \<Rightarrow> real \<Rightarrow> draw list" where
  "text_draws lines lh w h scrl =
     (let bh = blockHeight (length lines) lh h in
      case baseY h bh scrl of
        None \<Rightarrow> []
      | Some by \<Rightarrow>
          concat (map (\<lambda>pass. draw_lines (real w * 0.5) (by + real_of_int pass * bh) lh h 0 lines)
                      [- 1, 0]))"

text \<open>
  \<^verbatim>\<open>drawOffscreen(dt)\<close>: the scroll offset advances, and the offscreen canvas
  holds the frame for the new offset.
\<close>

definition drawOffscreen :: "env \<Rightarrow> props \<Rightarrow> real \<Rightarrow> scene \<Rightarrow> scene" where
  "drawOffscreen e p dt s =
     (let w = cwidth (off s);
          h = cheight (off s);
          scrl = scroll s + prop_speed p * dt;
          lines = layout_lines e p w h;
          ds = text_draws lines (lineHeight e h) w h scrl
      in s\<lparr>scroll := scrl, off := (off s)\<lparr>bitmap := Frame w h ds\<rparr>\<rparr>)"

subsection \<open>\<^verbatim>\<open>render\<close> and the frame loop\<close>

definition frame_dt :: "real \<Rightarrow> real \<Rightarrow> real" where
  "frame_dt start_time now = min 0.05 ((now - start_time) / 1000)"

definition requestAnimationFrame :: "host \<Rightarrow> nat \<times> host" where
  "requestAnimationFrame hst =
     (next_request hst,
      hst\<lparr>frame_requests := frame_requests hst @ [next_request hst],
          next_request := Suc (next_request hst)\<rparr>)"

definition cancelAnimationFrame :: "nat \<Rightarrow> host \<Rightarrow> host" where
  "cancelAnimationFrame r hst = hst\<lparr>frame_requests := removeAll r (frame_requests hst)\<rparr>"

text \<open>
  \<^verbatim>\<open>render(now)\<close>.  Without a 2D context the first statement of
  \<^verbatim>\<open>drawOffscreen\<close> throws a \<^verbatim>\<open>TypeError\<close>, after \<^verbatim>\<open>start\<close> was set and
  before the next frame is requested.
\<close>

definition render :: "env \<Rightarrow> props \<Rightarrow> real \<Rightarrow> scene \<times> host \<Rightarrow> error option \<times> scene \<times> host" where
  "render e p now sh =
     (case sh of (s, hst) \<Rightarrow>
        let dt = frame_dt (start s) now;
            s1 = s\<lparr>start := now\<rparr>
        in if \<not> offCtx s1 then (Some (Error ''TypeError''), s1, hst)
           else
             let s2 = drawOffscreen e p dt s1;
                 g = (gl hst)\<lparr>tex_image := bitmap (off s2), draw_calls := Suc (draw_calls (gl hst))\<rparr>;
                 (r, hst1) = requestAnimationFrame (hst\<lparr>gl := g\<rparr>)
             in (None, s2\<lparr>raf := r\<rparr>, hst1))"

text \<open>
  The browser runs the pending callback of request \<^verbatim>\<open>raf\<close> with the time
  stamp \<open>now\<close>.
\<close>

definition fire_frame :: "env \<Rightarrow> props \<Rightarrow> real \<Rightarrow> scene \<times> host \<Rightarrow> error option \<times> scene \<times> host" where
  "fire_frame e p now sh =
     (case sh of (s, hst) \<Rightarrow>
        render e p now (s, hst\<lparr>frame_requests := removeAll (raf s) (frame_requests hst)\<rparr>))"

text \<open>The scenes after each of a sequence of frames; the loop stops at an exception.\<close>

fun run_frames :: "env \<Rightarrow> props \<Rightarrow> real list \<Rightarrow> scene \<times> host \<Rightarrow> (scene \<times> host) list" where
  "run_frames e p [] sh = []"
| "run_frames e p (now # nows) sh =
     (case fire_frame e p now sh of
        (Some err, sh1) \<Rightarrow> [sh1]
      | (None, sh1) \<Rightarrow> sh1 # run_frames e p nows sh1)"

subsection \<open>The effect and its cleanup\<close>

text \<open>
  The body of \<^verbatim>\<open>useEffect\<close>.  The result is the exception it throws, or
  nothing when it returns early, or the scene whose cleanup it returns.
  The quad buffer and the texture are created without a check, as in the
  source.
\<close>

definition createBuffer :: "gl_state \<Rightarrow> nat \<times> gl_state" where
  "createBuffer g = (fresh g, g\<lparr>buffers := fresh g # buffers g, fresh := Suc (fresh g)\<rparr>)"

definition createTexture :: "gl_state \<Rightarrow> nat \<times> gl_state" where
  "createTexture g = (fresh g, g\<lparr>textures := fresh g # textures g, fresh := Suc (fresh g)\<rparr>)"

definition new_canvas :: canvas where
  "new_canvas = \<lparr>cwidth = 300, cheight = 150, bitmap = Blank, resets = 0\<rparr>"

definition mount :: "env \<Rightarrow> props \<Rightarrow> canvas \<Rightarrow> host \<Rightarrow> (error + scene option) \<times> host" where
  "mount e p cnv hst =
     (if \<not> webgl_available e then (Inr None, hst)
      else
        case createProgram e (gl hst) of
          (Inl err, g1) \<Rightarrow> (Inl err, hst\<lparr>gl := g1\<rparr>)
        | (Inr pr, g1) \<Rightarrow>
            let g2 = g1\<lparr>current_program := Some pr\<rparr>;
                (vb, g3) = createBuffer g2;
                g4 = g3\<lparr>uniform_K := prop_k p, uniform_Kcube := prop_kcube p\<rparr>;
                (tx, g5) = createTexture g4;
                s0 = \<lparr>canvas = cnv, off = new_canvas, offCtx = ctx2d_available e,
                      program = pr, vbo = vb, tex = tx, raf = 0, start = now0 e, scroll = 0\<rparr>;
                (s1, hst1) = resize e (s0, hst\<lparr>gl := g5\<rparr>);
                (r, hst2) = requestAnimationFrame hst1
            in (Inr (Some (s1\<lparr>raf := r\<rparr>)),
                hst2\<lparr>resize_listeners := Suc (resize_listeners hst2)\<rparr>))"

text \<open>The function the effect returns.\<close>

definition cleanup :: "scene \<Rightarrow> host \<Rightarrow> host" where
  "cleanup s hst =
     (let h1 = cancelAnimationFrame (raf s) hst;
          h2 = h1\<lparr>resize_listeners := resize_listeners h1 - 1\<rparr>;
          g1 = (gl h2)\<lparr>textures := removeAll (tex s) (textures (gl h2))\<rparr>;
          g2 = g1\<lparr>buffers := removeAll (vbo s) (buffers g1)\<rparr>;
          g3 = g2\<lparr>current_program := None\<rparr>
      in h2\<lparr>gl := g3\<rparr>)"

text \<open>
  The construction failures of the specification, in the words of the source's
  messages: the error the effect is expected to throw in a browser \<open>e\<close>
  whose WebGL context exists, if any.  Compile and link failures carry the
  info log.
\<close>

definition construction_error :: "env \<Rightarrow> error option" where
  "construction_error e =
     (if \<not> shader_ok e VERTEX_SHADER then Some (Error ''Failed to create shader'')
      else if \<not> compile_ok e VERTEX_SHADER
        then Some (Error (''Shader compile failed: '' @ shader_log e VERTEX_SHADER))
      else if \<not> shader_ok e FRAGMENT_SHADER then Some (Error ''Failed to create shader'')
      else if \<not> compile_ok e FRAGMENT_SHADER
        then Some (Error (''Shader compile failed: '' @ shader_log e FRAGMENT_SHADER))
      else if \<not> program_ok e then Some (Error ''Failed to create program'')
      else if \<not> link_ok e then Some (Error (''Program link failed: '' @ program_log e))
      else None)"

subsection \<open>A concrete configuration\<close>

text \<open>
  A browser in which everything succeeds, with a window of 1000 by 1000 CSS
  pixels, a device pixel ratio of 1 and a font whose characters are half as
  wide as the font size; a context with nothing allocated; the component's
  default properties with the one-word text \<^verbatim>\<open>A\<close>.
\<close>

definition gl0 :: gl_state where
  "gl0 = \<lparr>shaders = [], programs = [], buffers = [], textures = [], fresh = 1,
          current_program = None, uniform_K = 0, uniform_Kcube = 0,
          uniform_Resolution = (0, 0), viewport = (0, 0), tex_image = Blank, draw_calls = 0\<rparr>"

definition host0 :: host where
  "host0 = \<lparr>gl = gl0, frame_requests = [], next_request = 1, resize_listeners = 0\<rparr>"

definition env0 :: env where
  "env0 = \<lparr>webgl_available = True, ctx2d_available = True,
           shader_ok = (\<lambda>ty. True), compile_ok = (\<lambda>ty. True), shader_log = (\<lambda>ty. []),
           program_ok = True, link_ok = True, program_log = [],
           innerWidth = 1000, innerHeight = 1000, devicePixelRatio = 1,
           font_measure = (\<lambda>px s. real_of_int px * real (length s) / 2), now0 = 0\<rparr>"

definition props0 :: props where
  "props0 = \<lparr>prop_text = ''A'', prop_speed = 20, prop_k = - 0.28, prop_kcube = 0.10\<rparr>"

text \<open>The scene and the host once the effect has run in this configuration.\<close>

definition scene0 :: scene where
  "scene0 = \<lparr>canvas = \<lparr>cwidth = 1000, cheight = 1000, bitmap = Blank, resets = 2\<rparr>,
             off = \<lparr>cwidth = 1000, cheight = 1000, bitmap = Blank, resets = 2\<rparr>,
             offCtx = True, program = 3, vbo = 4, tex = 5, raf = 1, start = 0, scroll = 0\<rparr>"

definition host1 :: host where
  "host1 = \<lparr>gl = \<lparr>shaders = [2, 1], programs = [3], buffers = [4], textures = [5], fresh = 6,
                  current_program = Some 3, uniform_K = - 0.28, uniform_Kcube = 0.10,
                  uniform_Resolution = (1000, 1000), viewport = (1000, 1000),
                  tex_image = Blank, draw_calls = 0\<rparr>,
            frame_requests = [1], next_request = 2, resize_listeners = 1\<rparr>"

section \<open>Word wrap\<close>






















text \<open>A no-break space separates words like any other whitespace.\<close>

lemma wrapText_nbsp:
  "wrapText (\<lambda>s. real (length s)) [CHR ''a'', CHR 0xA0, CHR ''b''] 100 = [''a b'']"
  by (simp add: wrapText_def wrap_step_def is_ws_def)

section \<open>The fragment shader\<close>

lemma smoothstep_low: "r2 \<le> 0.2 \<Longrightarrow> smoothstep 0.9 0.2 r2 = 1"
proof -
  assume a: "r2 \<le> 0.2"
  have "(r2 - 0.9) / (0.2 - 0.9) \<ge> 1" using a by (simp add: field_simps)
  then have "clamp ((r2 - 0.9) / (0.2 - 0.9)) 0 1 = 1" by (simp add: clamp_def)
  then show ?thesis by (simp add: smoothstep_def Let_def)
qed

lemma smoothstep_high: "0.9 \<le> r2 \<Longrightarrow> smoothstep 0.9 0.2 r2 = 0"
proof -
  assume a: "0.9 \<le> r2"
  have "(r2 - 0.9) / (0.2 - 0.9) \<le> 0" using a by (simp add: field_simps)
  then have "clamp ((r2 - 0.9) / (0.2 - 0.9)) 0 1 = 0" by (simp add: clamp_def)
  then show ?thesis by (simp add: smoothstep_def Let_def)
qed

lemma hermite_mono:
  fixes u v :: real
  assumes "0 \<le> v" "v \<le> u" "u \<le> 1"
  shows "v * v * (3 - 2 * v) \<le> u * u * (3 - 2 * u)"
proof -
  have e: "u * u * (3 - 2 * u) - v * v * (3 - 2 * v)
         = (u - v) * (3 * (u + v) - 2 * (u * u + u * v + v * v))"
    by (simp add: algebra_simps)
  have u0: "0 \<le> u" using assms by simp
  have a: "u * u \<le> u" using u0 assms(3) by (simp add: mult_left_le)
  have b: "v * v \<le> v" using assms by (simp add: mult_left_le)
  have c: "u * v \<le> v" using assms u0 by (simp add: mult_left_le_one_le)
  define p where "p = u * u"
  define q where "q = v * v"
  define r where "r = u * v"
  have "0 \<le> 3 * (u + v) - 2 * (p + r + q)"
    using a b c assms unfolding p_def[symmetric] q_def[symmetric] r_def[symmetric] by argo
  then have "0 \<le> 3 * (u + v) - 2 * (u * u + u * v + v * v)"
    by (simp only: p_def q_def r_def)
  moreover have "0 \<le> u - v" using assms by simp
  ultimately have "0 \<le> (u - v) * (3 * (u + v) - 2 * (u * u + u * v + v * v))"
    by (rule mult_nonneg_nonneg[rotated])
  with e show ?thesis by linarith
qed

lemma clamp_antimono:
  assumes "a \<le> b"
  shows "clamp ((b - 0.9) / (0.2 - 0.9)) 0 1 \<le> clamp ((a - 0.9) / (0.2 - 0.9)) 0 1"
proof -
  have "(b - 0.9) / (0.2 - 0.9) \<le> (a - 0.9) / (0.2 - 0.9)"
    using assms by (simp add: field_simps)
  then show ?thesis unfolding clamp_def by (auto simp: min_def max_def)
qed

lemma clamp_range: "0 \<le> clamp x 0 1 \<and> clamp x 0 1 \<le> 1"
  by (simp add: clamp_def)

lemma smoothstep_antimono:
  assumes "a \<le> b"
  shows "smoothstep 0.9 0.2 b \<le> smoothstep 0.9 0.2 a"
proof -
  define u where "u = clamp ((a - 0.9) / (0.2 - 0.9)) 0 1"
  define v where "v = clamp ((b - 0.9) / (0.2 - 0.9)) 0 1"
  have "v \<le> u" unfolding u_def v_def using assms by (rule clamp_antimono)
  moreover have "0 \<le> v" "u \<le> 1" unfolding u_def v_def by (simp_all add: clamp_range)
  ultimately have "v * v * (3 - 2 * v) \<le> u * u * (3 - 2 * u)"
    by (intro hermite_mono)
  then show ?thesis unfolding smoothstep_def Let_def u_def v_def .
qed

lemma mix_mono:
  assumes "s \<le> t"
  shows "mix 0.85 1.0 s \<le> mix 0.85 1.0 t"
proof -
  have "mix 0.85 1.0 x = x * 3 / 20 + 17 / 20" for x
    by (simp add: mix_def field_simps)
  with assms show ?thesis by simp
qed

lemma mix_ends: "mix 0.85 1.0 1 = 1.0" "mix 0.85 1.0 0 = 0.85"
  by (simp_all add: mix_def)

lemma vignette_antimono: "a \<le> b \<Longrightarrow> vignette_factor b \<le> vignette_factor a"
  unfolding vignette_factor_def by (intro mix_mono smoothstep_antimono)

text \<open>
  Claim C4.  For every \<open>r2 \<ge> 0\<close> the brightness factor
  \<^verbatim>\<open>mix(0.85, 1.0, smoothstep(0.9, 0.2, r2))\<close> is exactly 1.0 when \<open>r2 \<le> 0.2\<close>,
  exactly 0.85 when \<open>r2 \<ge> 0.9\<close>, and does not increase with \<open>r2\<close> on the
  interval from 0.2 to 0.9.
\<close>

theorem vignette_monotone:
  assumes "0 \<le> r2"
  shows "(r2 \<le> 0.2 \<longrightarrow> vignette_factor r2 = 1.0) \<and>
         (0.9 \<le> r2 \<longrightarrow> vignette_factor r2 = 0.85) \<and>
         (\<forall>r2'. 0.2 \<le> r2 \<and> r2 \<le> r2' \<and> r2' \<le> 0.9 \<longrightarrow> vignette_factor r2' \<le> vignette_factor r2)"
proof (intro conjI impI allI)
  assume "r2 \<le> 0.2"
  then show "vignette_factor r2 = 1.0"
    by (simp only: vignette_factor_def smoothstep_low mix_ends)
next
  assume "0.9 \<le> r2"
  then show "vignette_factor r2 = 0.85"
    by (simp only: vignette_factor_def smoothstep_high mix_ends)
next
  fix r2' assume "0.2 \<le> r2 \<and> r2 \<le> r2' \<and> r2' \<le> 0.9"
  then have "r2 \<le> r2'" by simp
  then show "vignette_factor r2' \<le> vignette_factor r2" by (rule vignette_antimono)
qed

lemma vignette_mid: "vignette_factor 0.55 = 0.925"
  by (simp add: vignette_factor_def smoothstep_def clamp_def mix_def Let_def)

theorem vignette_monotone_witness:
  "vignette_factor 0.1 = 1.0 \<and> vignette_factor 1 = 0.85 \<and>
   vignette_factor 0.55 \<le> vignette_factor 0.2 \<and> vignette_factor 0.55 = 0.925"
  using vignette_monotone[of "0.1"] vignette_monotone[of 1] vignette_monotone[of "0.2"] vignette_mid
  by simp

lemma distorted_formula:
  "distorted uK uKcube (u, v) =
     (let r2 = (u - 0.5) * (u - 0.5) + (v - 0.5) * (v - 0.5);
          f = 1 + r2 * (uK + uKcube * sqrt r2)
      in (f * (u - 0.5) + 0.5, f * (v - 0.5) + 0.5))"
  by (simp add: distorted_def f_of_def r2_of_def dot_def centered_def Let_def)



section \<open>The frame loop\<close>

lemma mount_env0: "mount env0 props0 new_canvas host0 = (Inr (Some scene0), host1)"
  by (simp add: mount_def env0_def props0_def host0_def gl0_def scene0_def host1_def
      createProgram_def createShader_def createBuffer_def createTexture_def Let_def
      resize_def requestAnimationFrame_def new_canvas_def set_width_def set_height_def)

lemma render_scroll:
  "scroll (fst (snd (render e p now (s, hst)))) =
     (if offCtx s then scroll s + prop_speed p * frame_dt (start s) now else scroll s)"
  by (simp add: render_def Let_def drawOffscreen_def split_beta)

lemma render_start: "start (fst (snd (render e p now (s, hst)))) = now"
  by (simp add: render_def Let_def drawOffscreen_def split_beta)

lemma fire_frame_scroll:
  "scroll (fst (snd (fire_frame e p now (s, hst)))) =
     (if offCtx s then scroll s + prop_speed p * frame_dt (start s) now else scroll s)"
  by (simp add: fire_frame_def render_scroll)

lemma fire_frame_start: "start (fst (snd (fire_frame e p now (s, hst)))) = now"
  by (simp add: fire_frame_def render_start)





lemma frame_dt_nonneg: "st \<le> now \<Longrightarrow> 0 \<le> frame_dt st now"
  by (simp add: frame_dt_def)

lemma fire_frame_mono:
  assumes "0 \<le> prop_speed p" "start s \<le> now"
  shows "scroll s \<le> scroll (fst (snd (fire_frame e p now (s, hst))))"
  using assms frame_dt_nonneg[of "start s" now] by (simp add: fire_frame_scroll)

lemma run_frames_sorted:
  assumes "0 \<le> prop_speed p"
  shows "sorted (start s # nows) \<Longrightarrow>
         sorted (map (\<lambda>sh. scroll (fst sh)) ((s, hst) # run_frames e p nows (s, hst)))"
proof (induction nows arbitrary: s hst)
  case Nil
  then show ?case by simp
next
  case (Cons now nows)
  obtain r s1 h1 where f: "fire_frame e p now (s, hst) = (r, s1, h1)"
    by (cases "fire_frame e p now (s, hst)") auto
  have le: "start s \<le> now" using Cons.prems by simp
  have m: "scroll s \<le> scroll s1"
    using fire_frame_mono[OF assms le, of e hst] f by simp
  have st: "start s1 = now" using fire_frame_start[of e p now s hst] f by simp
  have "sorted (start s1 # nows)" using Cons.prems st by simp
  then have ih: "sorted (map (\<lambda>sh. scroll (fst sh)) ((s1, h1) # run_frames e p nows (s1, h1)))"
    by (rule Cons.IH)
  show ?case
  proof (cases r)
    case None
    with f m ih show ?thesis by fastforce
  next
    case (Some err)
    with f m show ?thesis by simp
  qed
qed

lemma text_draws_rem:
  "js_rem scrl (blockHeight (length ls) lh h) = js_rem scrl' (blockHeight (length ls) lh h) \<Longrightarrow>
   text_draws ls lh w h scrl = text_draws ls lh w h scrl'"
  by (simp add: text_draws_def baseY_def Let_def)

text \<open>
  Claim C9, as amended.  When the speed is not negative and the time stamps
  do not decrease (the first is not before \<^verbatim>\<open>start\<close>), the scroll offsets
  after the frames of any sequence are non-decreasing; and the text draws
  depend on the offset only through its remainder by the block height.
\<close>

theorem scroll_monotone:
  assumes "0 \<le> prop_speed p" and "sorted (start s # nows)"
  shows "sorted (map (\<lambda>sh. scroll (fst sh)) ((s, hst) # run_frames e p nows (s, hst))) \<and>
         (\<forall>scrl scrl'. js_rem scrl (blockHeight (length ls) lh h) = js_rem scrl' (blockHeight (length ls) lh h)
             \<longrightarrow> text_draws ls lh w h scrl = text_draws ls lh w h scrl')"
  using run_frames_sorted[OF assms] text_draws_rem by blast

text \<open>
  Claim C9 as stated fails: with a speed of \<open>-20\<close> one frame after 16 ms
  takes the offset from 0 to \<open>-0.32\<close>.
\<close>

theorem scroll_decreases:
  "scroll (fst (snd (fire_frame env0 (props0\<lparr>prop_speed := - 20\<rparr>) 16 (scene0, host1)))) = - 0.32 \<and>
   scroll scene0 = 0"
  by (simp add: fire_frame_scroll scene0_def props0_def frame_dt_def)

theorem scroll_monotone_witness:
  "sorted (map (\<lambda>sh. scroll (fst sh))
             ((scene0, host1) # run_frames env0 props0 [16, 32] (scene0, host1))) \<and>
   text_draws [''A''] 62 1000 1000 0 = text_draws [''A''] 62 1000 1000 262"
proof -
  have a: "0 \<le> prop_speed props0" by (simp add: props0_def)
  have b: "sorted (start scene0 # [16, 32])" by (simp add: scene0_def)
  have c: "js_rem 0 (blockHeight (length [''A'']) 62 1000) = js_rem 262 (blockHeight (length [''A'']) 62 1000)"
    by (simp add: js_rem_def js_trunc_def blockHeight_def)
  from scroll_monotone[OF a b, of host1 env0 "[''A'']" 62 1000 1000] c
  show ?thesis by blast
qed

lemma scroll_trace0:
  "map (\<lambda>sh. scroll (fst sh)) (run_frames env0 props0 [16, 32] (scene0, host1)) = [0.32, 0.64]"
  by (simp add: fire_frame_def render_def Let_def split_beta requestAnimationFrame_def
      drawOffscreen_def frame_dt_def scene0_def props0_def)

section \<open>Block height\<close>

lemma fontPx_ge: "16 \<le> fontPx e h"
  by (simp add: fontPx_def)

lemma lineHeight_ge: "20 \<le> lineHeight e h"
proof -
  have "(16::real) \<le> real_of_int (fontPx e h)" using fontPx_ge[of e h] by linarith
  then have "(20::real) \<le> real_of_int (fontPx e h) * 1.25" by simp
  then show ?thesis unfolding lineHeight_def by (simp add: le_floor_iff)
qed

lemma blockHeight_pos:
  assumes "0 < h" "0 \<le> lh"
  shows "0 < blockHeight n lh h"
proof -
  have "0 \<le> real n * real_of_int lh" using assms(2) by simp
  moreover have "0 < real h * 0.2" using assms(1) by simp
  ultimately show ?thesis unfolding blockHeight_def by linarith
qed

lemma baseY_defined: "bh \<noteq> 0 \<Longrightarrow> baseY h bh scrl = Some (real h - real h * 0.10 - (scrl - bh * of_int (js_trunc (scrl / bh))))"
  by (simp add: baseY_def js_rem_def)

lemma wrapText_empty: "wrapText m [] mw = []"
  by (simp add: wrapText_def wrap_step_def)

text \<open>
  Claim C10.  For every offscreen height \<open>h > 0\<close> and every text the block
  height is positive, so the remainder in the base position has a divisor
  other than 0 and the base position is a number; the empty text wraps to
  no lines.
\<close>

theorem blockHeight_positive:
  assumes "0 < h"
  shows "0 < blockHeight (length (layout_lines e p w h)) (lineHeight e h) h \<and>
         (\<exists>y. baseY h (blockHeight (length (layout_lines e p w h)) (lineHeight e h) h) scrl = Some y) \<and>
         layout_lines e (p\<lparr>prop_text := []\<rparr>) w h = []"
proof -
  have lh: "0 \<le> lineHeight e h" using lineHeight_ge[of e h] by simp
  have pos: "0 < blockHeight (length (layout_lines e p w h)) (lineHeight e h) h"
    using assms lh by (rule blockHeight_pos)
  then have "blockHeight (length (layout_lines e p w h)) (lineHeight e h) h \<noteq> 0" by simp
  from baseY_defined[OF this] pos show ?thesis
    by (simp add: layout_lines_def wrapText_empty)
qed

theorem blockHeight_positive_witness:
  "blockHeight (length (layout_lines env0 (props0\<lparr>prop_text := []\<rparr>) 1000 1000)) (lineHeight env0 1000) 1000 = 200 \<and>
   baseY 1000 200 450 = Some 850"
proof -
  have l: "lineHeight env0 1000 = 62"
    by (simp add: lineHeight_def fontPx_def isMobile_def env0_def)
  have b: "baseY 1000 200 450 = Some 850"
    by (simp add: baseY_def js_rem_def js_trunc_def)
  from blockHeight_positive[of 1000 env0 "props0\<lparr>prop_text := []\<rparr>" 1000 450] l b
  show ?thesis by (simp add: blockHeight_def)
qed

section \<open>The scroll loop\<close>

lemma js_rem_period:
  assumes "0 \<le> s" "0 < bh"
  shows "js_rem (s + bh) bh = js_rem s bh"
proof -
  have q: "(s + bh) / bh = s / bh + 1" using assms(2) by (simp add: field_simps)
  have n: "\<not> s / bh < 0" "\<not> s / bh + 1 < 0" using assms by (simp_all add: not_less add_nonneg_nonneg)
  have t0: "js_trunc (s / bh) = \<lfloor>s / bh\<rfloor>"
    unfolding js_trunc_def using n(1) by simp
  have t1: "js_trunc ((s + bh) / bh) = \<lfloor>s / bh\<rfloor> + 1"
    unfolding js_trunc_def q using n(2) by simp
  have "s + bh - bh * of_int (\<lfloor>s / bh\<rfloor> + 1) = s - bh * of_int \<lfloor>s / bh\<rfloor>"
    by (simp add: algebra_simps)
  then show ?thesis using assms(2) unfolding js_rem_def t0 t1 by simp
qed

lemma text_draws_period:
  assumes "0 \<le> s" "0 < h"  "0 \<le> lh"
  shows "text_draws ls lh w h (s + blockHeight (length ls) lh h) = text_draws ls lh w h s"
  using js_rem_period[OF assms(1) blockHeight_pos[OF assms(2,3)], of "length ls"]
  by (simp add: text_draws_def baseY_def Let_def)

lemma layout0: "layout_lines env0 props0 1000 1000 = [''A'']"
  by (simp add: layout_lines_def wrapText_def wrap_step_def props0_def is_ws_def)

lemma lineHeight0: "lineHeight env0 1000 = 62"
  by (simp add: lineHeight_def fontPx_def isMobile_def env0_def)

lemma js_rem_small:
  assumes "0 \<le> x" "x < y"
  shows "js_rem x y = Some x"
proof -
  have "0 \<le> x / y" "x / y < 1" using assms by simp_all
  then have "\<lfloor>x / y\<rfloor> = 0" "\<not> x / y < 0" by (simp_all add: floor_eq_iff)
  then have "js_trunc (x / y) = 0" by (simp add: js_trunc_def)
  then show ?thesis using assms by (simp add: js_rem_def)
qed

lemma edgeAlpha_inside:
  assumes "fade \<le> y" "y \<le> h - fade" "0 < fade"
  shows "edgeAlpha y h fade = 1"
proof -
  have "1 \<le> y / fade" "1 \<le> (h - y) / fade" using assms by (simp_all add: field_simps)
  then show ?thesis by (simp add: edgeAlpha_def Let_def)
qed

lemma draws_before_wrap:
  assumes "0 < eps" "eps \<le> 100"
  shows "text_draws [''A''] 62 1000 1000 (262 - eps) =
           [FillText ''A'' 500 (376 + eps) 1, FillText ''A'' 500 (638 + eps) 1]"
proof -
  have r: "js_rem (262 - eps) 262 = Some (262 - eps)"
    using assms by (intro js_rem_small) simp_all
  have b: "baseY 1000 262 (262 - eps) = Some (638 + eps)"
    by (simp add: baseY_def r)
  have a1: "edgeAlpha (376 + eps) 1000 124 = 1"
    using assms by (intro edgeAlpha_inside) simp_all
  have a2: "edgeAlpha (638 + eps) 1000 124 = 1"
    using assms by (intro edgeAlpha_inside) simp_all
  have bh: "blockHeight (length [''A'']) 62 1000 = 262"
    by (simp add: blockHeight_def)
  have p1: "draw_lines 500 (638 + eps + - 1 * 262) 62 1000 0 [''A''] = [FillText ''A'' 500 (376 + eps) 1]"
  proof -
    have "638 + eps + - 1 * 262 = 376 + eps" by simp
    then show ?thesis by (simp add: a1 Let_def)
  qed
  have p2: "draw_lines 500 (638 + eps + 0 * 262) 62 1000 0 [''A''] = [FillText ''A'' 500 (638 + eps) 1]"
    by (simp add: a2 Let_def)
  show ?thesis
    unfolding text_draws_def bh Let_def b using p1 p2 by simp
qed

lemma draws_at_wrap:
  "text_draws [''A''] 62 1000 1000 262 =
     [FillText ''A'' 500 638 1, FillText ''A'' 500 900 (25 / 31)]"
  by (simp add: text_draws_def blockHeight_def baseY_def js_rem_def js_trunc_def Let_def edgeAlpha_def)

lemma frames_around_wrap:
  assumes "0 < eps" "eps \<le> 100"
  shows "bitmap (off (drawOffscreen env0 props0 0 (scene0\<lparr>scroll := 262 - eps\<rparr>))) =
           Frame 1000 1000 [FillText ''A'' 500 (376 + eps) 1, FillText ''A'' 500 (638 + eps) 1] \<and>
         bitmap (off (drawOffscreen env0 props0 0 (scene0\<lparr>scroll := 262\<rparr>))) =
           Frame 1000 1000 [FillText ''A'' 500 638 1, FillText ''A'' 500 900 (25 / 31)]"
  using draws_before_wrap[OF assms] draws_at_wrap
  by (simp add: drawOffscreen_def Let_def scene0_def layout0 lineHeight0)

lemma draw_lines_y:
  "d \<in> set (draw_lines lx y lh h i ls) \<Longrightarrow>
   \<exists>j<length ls. draw_y d = y + real (i + j) * real_of_int lh"
proof (induction ls arbitrary: i)
  case Nil
  then show ?case by simp
next
  case (Cons l ls)
  from Cons.prems have
    "d = FillText l lx (y + real i * real_of_int lh) (edgeAlpha (y + real i * real_of_int lh) (real h) (real_of_int lh * 2))
     \<or> d \<in> set (draw_lines lx y lh h (Suc i) ls)"
    by (auto simp: Let_def split: if_splits)
  then show ?case
  proof
    assume "d = FillText l lx (y + real i * real_of_int lh) (edgeAlpha (y + real i * real_of_int lh) (real h) (real_of_int lh * 2))"
    then have "draw_y d = y + real (i + 0) * real_of_int lh" by simp
    then show ?thesis by (intro exI[of _ 0]) simp
  next
    assume "d \<in> set (draw_lines lx y lh h (Suc i) ls)"
    from Cons.IH[OF this] obtain j where j: "j < length ls" "draw_y d = y + real (Suc i + j) * real_of_int lh"
      by blast
    then have "Suc j < length (l # ls)" "draw_y d = y + real (i + Suc j) * real_of_int lh" by simp_all
    then show ?thesis by blast
  qed
qed

lemma draw_lines_y_le:
  assumes "d \<in> set (draw_lines lx y lh h 0 ls)" "0 \<le> lh"
  shows "draw_y d \<le> y + (real (length ls) - 1) * real_of_int lh"
proof -
  from draw_lines_y[OF assms(1)] obtain j where j: "j < length ls" "draw_y d = y + real j * real_of_int lh"
    by auto
  have "real j \<le> real (length ls) - 1" using j(1) by linarith
  then have "real j * real_of_int lh \<le> (real (length ls) - 1) * real_of_int lh"
    using assms(2) by (intro mult_right_mono) simp_all
  with j(2) show ?thesis by simp
qed

lemma js_rem_self: "0 < bh \<Longrightarrow> js_rem bh bh = Some 0"
  by (simp add: js_rem_def js_trunc_def)

lemma edgeAlpha_pos:
  assumes "0 < y" "y < h" "0 < fade"
  shows "0 < edgeAlpha y h fade"
proof -
  have "0 < y / fade" "0 < (h - y) / fade" using assms by simp_all
  then show ?thesis by (simp add: edgeAlpha_def Let_def)
qed

lemma first_line_at_wrap:
  assumes "0 < h" "0 < lh" "ls \<noteq> []"
  shows "0 < edgeAlpha (real h * 0.9) (real h) (real_of_int lh * 2) \<and>
         FillText (hd ls) (real w * 0.5) (real h * 0.9) (edgeAlpha (real h * 0.9) (real h) (real_of_int lh * 2))
           \<in> set (text_draws ls lh w h (blockHeight (length ls) lh h))"
proof -
  have bh: "0 < blockHeight (length ls) lh h"
    using assms(1,2) by (intro blockHeight_pos) simp_all
  have a: "0 < edgeAlpha (real h * 0.9) (real h) (real_of_int lh * 2)"
    using assms(1,2) by (intro edgeAlpha_pos) simp_all
  have b: "baseY h (blockHeight (length ls) lh h) (blockHeight (length ls) lh h) = Some (real h * 0.9)"
    using bh by (simp add: baseY_def js_rem_self)
  obtain l ls' where ls: "ls = l # ls'" using assms(3) by (cases ls) auto
  have "FillText l (real w * 0.5) (real h * 0.9) (edgeAlpha (real h * 0.9) (real h) (real_of_int lh * 2))
         \<in> set (draw_lines (real w * 0.5) (real h * 0.9) lh h 0 (l # ls'))"
    using a by (simp add: Let_def)
  then have m: "FillText (hd ls) (real w * 0.5) (real h * 0.9) (edgeAlpha (real h * 0.9) (real h) (real_of_int lh * 2))
         \<in> set (draw_lines (real w * 0.5) (real h * 0.9 + real_of_int 0 * blockHeight (length ls) lh h) lh h 0 ls)"
    unfolding ls by simp
  have "FillText (hd ls) (real w * 0.5) (real h * 0.9) (edgeAlpha (real h * 0.9) (real h) (real_of_int lh * 2))
           \<in> set (text_draws ls lh w h (blockHeight (length ls) lh h))"
    unfolding text_draws_def Let_def b using m by simp
  with a show ?thesis by simp
qed

lemma draws_before_wrap_le:
  assumes "0 < h" "0 < lh" "0 < eps" "eps \<le> blockHeight (length ls) lh h"
    and "d \<in> set (text_draws ls lh w h (blockHeight (length ls) lh h - eps))"
  shows "draw_y d \<le> real h * 0.7 - real_of_int lh + eps"
proof -
  define bh where "bh = blockHeight (length ls) lh h"
  have bhp: "0 < bh" unfolding bh_def using assms(1,2) by (intro blockHeight_pos) simp_all
  have r: "js_rem (bh - eps) bh = Some (bh - eps)"
    using assms(3,4) bhp unfolding bh_def[symmetric] by (intro js_rem_small) simp_all
  have b: "baseY h bh (bh - eps) = Some (real h * 0.9 - bh + eps)"
    by (simp add: baseY_def r)
  from assms(5) have "d \<in> set (draw_lines (real w * 0.5) (real h * 0.9 - bh + eps + real_of_int (- 1) * bh) lh h 0 ls)
      \<or> d \<in> set (draw_lines (real w * 0.5) (real h * 0.9 - bh + eps + real_of_int 0 * bh) lh h 0 ls)"
    unfolding text_draws_def bh_def[symmetric] Let_def b by simp
  then have "draw_y d \<le> real h * 0.9 - bh + eps + (real (length ls) - 1) * real_of_int lh"
  proof
    assume "d \<in> set (draw_lines (real w * 0.5) (real h * 0.9 - bh + eps + real_of_int (- 1) * bh) lh h 0 ls)"
    from draw_lines_y_le[OF this] assms(2) bhp show ?thesis by simp
  next
    assume "d \<in> set (draw_lines (real w * 0.5) (real h * 0.9 - bh + eps + real_of_int 0 * bh) lh h 0 ls)"
    from draw_lines_y_le[OF this] assms(2) show ?thesis by simp
  qed
  moreover have "bh = real (length ls) * real_of_int lh + real h * 0.2"
    unfolding bh_def blockHeight_def ..
  ultimately show ?thesis by (simp add: algebra_simps)
qed

text \<open>
  Claim C3 on the code.  For every surface height \<open>h > 0\<close>, every line height
  and every non-empty list of lines: at the offset \<open>blockHeight\<close>, where the
  remainder wraps to 0, the first line is drawn at \<open>y = 0.9 h\<close> with a positive
  alpha; at an offset \<open>blockHeight - eps\<close> before the wrap every draw has
  \<open>y \<le> 0.7 h - lineHeight + eps\<close>.  For small \<open>eps\<close> the line at \<open>0.9 h\<close> has no
  counterpart in the frame before: it appears at once, and the output is not
  continuous at the wrap.
\<close>

theorem wrap_discontinuity:
  assumes "0 < h" "0 < lh" "ls \<noteq> []" "0 < eps" "eps \<le> blockHeight (length ls) lh h"
  shows "0 < edgeAlpha (real h * 0.9) (real h) (real_of_int lh * 2) \<and>
         FillText (hd ls) (real w * 0.5) (real h * 0.9) (edgeAlpha (real h * 0.9) (real h) (real_of_int lh * 2))
           \<in> set (text_draws ls lh w h (blockHeight (length ls) lh h)) \<and>
         (\<forall>d \<in> set (text_draws ls lh w h (blockHeight (length ls) lh h - eps)).
            draw_y d \<le> real h * 0.7 - real_of_int lh + eps)"
  using first_line_at_wrap[OF assms(1,2,3)] draws_before_wrap_le[OF assms(1,2,4,5)] by blast


text \<open>
  In the concrete configuration the block height is 262.  Just before the
  wrap the frame has the line at \<open>y = 376 + eps\<close> and at \<open>y = 638 + eps\<close>, both
  opaque; at 262 it has the line at \<open>y = 638\<close> and at \<open>y = 900\<close> with alpha
  \<open>25/31\<close>.
\<close>

theorem wrap_discontinuity_witness:
  "FillText ''A'' 500 900 (25 / 31) \<in> set (text_draws [''A''] 62 1000 1000 262) \<and>
   text_draws [''A''] 62 1000 1000 (262 - 1 / 10) =
     [FillText ''A'' 500 (376 + 1 / 10) 1, FillText ''A'' 500 (638 + 1 / 10) 1] \<and>
   text_draws [''A''] 62 1000 1000 262 =
     [FillText ''A'' 500 638 1, FillText ''A'' 500 900 (25 / 31)]"
proof -
  have b: "blockHeight (length [''A'']) 62 1000 = 262" by (simp add: blockHeight_def)
  have a: "edgeAlpha (real 1000 * 0.9) (real 1000) (real_of_int 62 * 2) = 25 / 31"
    by (simp add: edgeAlpha_def)
  have h: "(0::nat) < 1000" "(0::int) < 62" "[''A''] \<noteq> []" "(0::real) < 1 / 10"
    by simp_all
  have h5: "1 / 10 \<le> blockHeight (length [''A'']) 62 1000"
    unfolding b by simp
  from wrap_discontinuity[OF h h5, of 1000] have
    "FillText (hd [''A'']) (real 1000 * 0.5) (real 1000 * 0.9)
       (edgeAlpha (real 1000 * 0.9) (real 1000) (real_of_int 62 * 2))
       \<in> set (text_draws [''A''] 62 1000 1000 (blockHeight (length [''A'']) 62 1000))"
    by blast
  then have "FillText ''A'' 500 900 (25 / 31) \<in> set (text_draws [''A''] 62 1000 1000 262)"
    unfolding a b by simp
  with draws_before_wrap[of "1 / 10"] draws_at_wrap show ?thesis by simp
qed

section \<open>Resize\<close>

lemma resize_off:
  "bitmap (off (fst (resize e (s, hst)))) = Blank \<and>
   resets (off (fst (resize e (s, hst)))) = Suc (Suc (resets (off s)))"
  by (simp add: resize_def Let_def set_width_def set_height_def)

lemma frame1:
  "fire_frame env0 props0 16 (scene0, host1) =
     (None,
      scene0\<lparr>start := 16, scroll := 0.32, raf := 2,
             off := (off scene0)\<lparr>bitmap := Frame 1000 1000
               [FillText ''A'' 500 (15942 / 25) 1, FillText ''A'' 500 (22492 / 25) (627 / 775)]\<rparr>\<rparr>,
      host1\<lparr>gl := (gl host1)\<lparr>tex_image := Frame 1000 1000
               [FillText ''A'' 500 (15942 / 25) 1, FillText ''A'' 500 (22492 / 25) (627 / 775)],
               draw_calls := 1\<rparr>,
            frame_requests := [2], next_request := 3\<rparr>)"
proof -
  have l: "layout_lines env0 props0 1000 1000 = [''A'']"
    by (simp add: layout_lines_def wrapText_def wrap_step_def props0_def is_ws_def)
  have h: "lineHeight env0 1000 = 62"
    by (simp add: lineHeight_def fontPx_def isMobile_def env0_def)
  have t: "text_draws [''A''] 62 1000 1000 (8 / 25) =
     [FillText ''A'' 500 (15942 / 25) 1, FillText ''A'' 500 (22492 / 25) (627 / 775)]"
    by (simp add: text_draws_def blockHeight_def baseY_def js_rem_def js_trunc_def Let_def edgeAlpha_def)
  have sp: "prop_speed props0 = 20" by (simp add: props0_def)
  have d: "drawOffscreen env0 props0 (2 / 125) (scene0\<lparr>start := 16\<rparr>) =
      scene0\<lparr>start := 16, scroll := 8 / 25,
             off := (off scene0)\<lparr>bitmap := Frame 1000 1000
               [FillText ''A'' 500 (15942 / 25) 1, FillText ''A'' 500 (22492 / 25) (627 / 775)]\<rparr>\<rparr>"
    unfolding drawOffscreen_def Let_def sp
    by (simp add: scene0_def l h t)
  have dt: "frame_dt (start scene0) 16 = 2 / 125"
    by (simp add: frame_dt_def scene0_def)
  have fr: "removeAll (raf scene0) (frame_requests host1) = []" "offCtx (scene0\<lparr>start := 16\<rparr>)"
    by (simp_all add: scene0_def host1_def)
  show ?thesis
    unfolding fire_frame_def render_def prod.case Let_def dt d
    by (simp add: fr requestAnimationFrame_def host1_def scene0_def)
qed

text \<open>
  Claim C6 on the code.  After the first frame the offscreen canvas holds
  that frame.  A second \<^verbatim>\<open>resize\<close> under the same window leaves the visible
  canvas as it is (the guard skips the assignment) and keeps the dimensions of
  the offscreen canvas, but it assigns them again: the frame is replaced by
  a blank bitmap and the offscreen surface has been reset twice more.
\<close>

theorem resize_clears_offscreen:
  "case fire_frame env0 props0 16 (scene0, host1) of
     (r, s, hst) \<Rightarrow>
       bitmap (off s) = Frame 1000 1000
          [FillText ''A'' 500 (15942 / 25) 1, FillText ''A'' 500 (22492 / 25) (627 / 775)] \<and>
       canvas (fst (resize env0 (s, hst))) = canvas s \<and>
       cwidth (off (fst (resize env0 (s, hst)))) = cwidth (off s) \<and>
       cheight (off (fst (resize env0 (s, hst)))) = cheight (off s) \<and>
       bitmap (off (fst (resize env0 (s, hst)))) = Blank \<and>
       resets (off (fst (resize env0 (s, hst)))) = resets (off s) + 2"
  unfolding frame1
  by (simp add: resize_def Let_def set_width_def set_height_def scene0_def env0_def)

theorem resize_clears_offscreen_witness:
  "bitmap (off (fst (resize env0 (snd (fire_frame env0 props0 16 (scene0, host1)))))) = Blank \<and>
   bitmap (off (fst (snd (fire_frame env0 props0 16 (scene0, host1))))) \<noteq> Blank"
  using resize_clears_offscreen unfolding frame1 by simp

section \<open>Teardown\<close>

lemma createShader_programs: "programs (snd (createShader e ty g)) = programs g"
  by (simp add: createShader_def Let_def)

lemma createProgram_ok:
  "createProgram e g = (Inr pr, g1) \<Longrightarrow> pr \<in> set (programs g1)"
  by (auto simp: createProgram_def createShader_def Let_def split: if_splits)

lemma resize_programs: "programs (gl (snd (resize e (s, hst)))) = programs (gl hst)"
  by (simp add: resize_def Let_def)

lemma resize_handles:
  "program (fst (resize e (s, hst))) = program s"
  "vbo (fst (resize e (s, hst))) = vbo s"
  "tex (fst (resize e (s, hst))) = tex s"
  by (simp_all add: resize_def Let_def)

lemma mount_program:
  assumes "mount e p cnv hst = (Inr (Some s), hst1)"
  shows "program s \<in> set (programs (gl hst1))"
proof -
  from assms have w: "webgl_available e" by (auto simp: mount_def split: if_splits)
  obtain r g1 where c: "createProgram e (gl hst) = (r, g1)" by (cases "createProgram e (gl hst)")
  from assms w c obtain pr where r: "r = Inr pr" by (cases r) (auto simp: mount_def)
  from c r have m: "pr \<in> set (programs g1)" by (simp add: createProgram_ok)
  from assms w c r m show ?thesis
    by (auto simp: mount_def Let_def split_beta createBuffer_def createTexture_def
        resize_programs resize_handles requestAnimationFrame_def)
qed

lemma cleanup_programs: "programs (gl (cleanup s hst)) = programs (gl hst)"
  by (simp add: cleanup_def Let_def cancelAnimationFrame_def)

text \<open>
  Claim C7 on the code.  After every effect that returned a cleanup, running
  the cleanup cancels the pending frame and deletes the texture and the
  buffer, but the program is still allocated, and so is every shader.
\<close>

theorem cleanup_keeps_program:
  assumes "mount e p cnv hst = (Inr (Some s), hst1)"
  shows "program s \<in> set (programs (gl (cleanup s hst1))) \<and>
         shaders (gl (cleanup s hst1)) = shaders (gl hst1) \<and>
         tex s \<notin> set (textures (gl (cleanup s hst1))) \<and>
         vbo s \<notin> set (buffers (gl (cleanup s hst1))) \<and>
         raf s \<notin> set (frame_requests (cleanup s hst1))"
  using mount_program[OF assms]
  by (simp add: cleanup_def Let_def cancelAnimationFrame_def)

theorem cleanup_keeps_program_witness:
  "mount env0 props0 new_canvas host0 = (Inr (Some scene0), host1) \<and>
   cleanup scene0 host1 =
     \<lparr>gl = \<lparr>shaders = [2, 1], programs = [3], buffers = [], textures = [], fresh = 6,
             current_program = None, uniform_K = - (7 / 25), uniform_Kcube = 1 / 10,
             uniform_Resolution = (1000, 1000), viewport = (1000, 1000),
             tex_image = Blank, draw_calls = 0\<rparr>,
       frame_requests = [], next_request = 2, resize_listeners = 0\<rparr> \<and>
   program scene0 \<in> set (programs (gl (cleanup scene0 host1)))"
proof -
  note m = mount_env0
  have c: "cleanup scene0 host1 =
     \<lparr>gl = \<lparr>shaders = [2, 1], programs = [3], buffers = [], textures = [], fresh = 6,
             current_program = None, uniform_K = - (7 / 25), uniform_Kcube = 1 / 10,
             uniform_Resolution = (1000, 1000), viewport = (1000, 1000),
             tex_image = Blank, draw_calls = 0\<rparr>,
       frame_requests = [], next_request = 2, resize_listeners = 0\<rparr>"
    by (simp add: cleanup_def Let_def cancelAnimationFrame_def scene0_def host1_def)
  from cleanup_keeps_program[OF m] m c show ?thesis by simp
qed

section \<open>Construction failures\<close>

lemma createProgram_result:
  "fst (createProgram e g) =
     (case construction_error e of Some err \<Rightarrow> Inl err | None \<Rightarrow> Inr (Suc (Suc (fresh g))))"
  by (simp add: createProgram_def createShader_def construction_error_def Let_def)

lemma createProgram_failed:
  "fst (createProgram e g) = Inl err \<Longrightarrow> programs (snd (createProgram e g)) = programs g"
  by (auto simp: createProgram_def createShader_def Let_def split: if_splits)

lemma mount_no_webgl: "\<not> webgl_available e \<Longrightarrow> mount e p cnv hst = (Inr None, hst)"
  by (simp add: mount_def)

lemma mount_error:
  assumes "webgl_available e" "construction_error e = Some err"
  shows "fst (mount e p cnv hst) = Inl err \<and>
         frame_requests (snd (mount e p cnv hst)) = frame_requests hst \<and>
         resize_listeners (snd (mount e p cnv hst)) = resize_listeners hst \<and>
         programs (gl (snd (mount e p cnv hst))) = programs (gl hst)"
proof -
  obtain r g1 where c: "createProgram e (gl hst) = (r, g1)" by (cases "createProgram e (gl hst)")
  have r: "r = Inl err" using createProgram_result[of e "gl hst"] c assms(2) by simp
  have pg: "programs g1 = programs (gl hst)"
    using createProgram_failed[of e "gl hst" err] c r by simp
  show ?thesis using assms(1) c r pg by (simp add: mount_def)
qed

lemma mount_ok:
  assumes "webgl_available e" "construction_error e = None"
  shows "\<exists>s. fst (mount e p cnv hst) = Inr (Some s)"
proof -
  obtain r g1 where c: "createProgram e (gl hst) = (r, g1)" by (cases "createProgram e (gl hst)")
  have r: "r = Inr (Suc (Suc (fresh (gl hst))))"
    using createProgram_result[of e "gl hst"] c assms(2) by simp
  show ?thesis using assms(1) c r by (simp add: mount_def Let_def split_beta)
qed

text \<open>
  Claim C8, as amended.  When the WebGL context exists, a failure to create
  or compile a shader or to create or link the program is thrown by the
  effect itself, with the message of the source (a compile or link failure
  carries the info log), and then no frame is requested, no listener is
  attached and no program stays allocated; without such a failure the
  effect returns a scene.  When the context does not exist the effect
  returns without an error and changes nothing.
\<close>

theorem construction_failures:
  "(\<not> webgl_available e \<longrightarrow> mount e p cnv hst = (Inr None, hst)) \<and>
   (webgl_available e \<longrightarrow>
      (case construction_error e of
         Some err \<Rightarrow>
           fst (mount e p cnv hst) = Inl err \<and>
           frame_requests (snd (mount e p cnv hst)) = frame_requests hst \<and>
           resize_listeners (snd (mount e p cnv hst)) = resize_listeners hst \<and>
           programs (gl (snd (mount e p cnv hst))) = programs (gl hst)
       | None \<Rightarrow> (\<exists>s. fst (mount e p cnv hst) = Inr (Some s))))"
  using mount_no_webgl[of e p cnv hst] mount_error[of e _ p cnv hst] mount_ok[of e p cnv hst]
  by (auto split: option.splits)

theorem construction_failures_witness:
  "construction_error (env0\<lparr>compile_ok := (\<lambda>ty. ty = VERTEX_SHADER), shader_log := (\<lambda>ty. ''ERROR: 0:1'')\<rparr>)
     = Some (Error ''Shader compile failed: ERROR: 0:1'') \<and>
   fst (mount (env0\<lparr>compile_ok := (\<lambda>ty. ty = VERTEX_SHADER), shader_log := (\<lambda>ty. ''ERROR: 0:1'')\<rparr>)
          props0 new_canvas host0) = Inl (Error ''Shader compile failed: ERROR: 0:1'') \<and>
   frame_requests (snd (mount (env0\<lparr>compile_ok := (\<lambda>ty. ty = VERTEX_SHADER), shader_log := (\<lambda>ty. ''ERROR: 0:1'')\<rparr>)
          props0 new_canvas host0)) = [] \<and>
   resize_listeners (snd (mount (env0\<lparr>compile_ok := (\<lambda>ty. ty = VERTEX_SHADER), shader_log := (\<lambda>ty. ''ERROR: 0:1'')\<rparr>)
          props0 new_canvas host0)) = 0 \<and>
   mount (env0\<lparr>webgl_available := False\<rparr>) props0 new_canvas host0 = (Inr None, host0)"
proof -
  let ?e = "env0\<lparr>compile_ok := (\<lambda>ty. ty = VERTEX_SHADER), shader_log := (\<lambda>ty. ''ERROR: 0:1'')\<rparr>"
  have w: "webgl_available ?e" "\<not> webgl_available (env0\<lparr>webgl_available := False\<rparr>)"
    by (simp_all add: env0_def)
  have c: "construction_error ?e = Some (Error ''Shader compile failed: ERROR: 0:1'')"
    by (simp add: construction_error_def env0_def)
  have h: "frame_requests host0 = []" "resize_listeners host0 = 0"
    by (simp_all add: host0_def)
  from construction_failures[of ?e props0 new_canvas host0]
       construction_failures[of "env0\<lparr>webgl_available := False\<rparr>" props0 new_canvas host0]
  show ?thesis unfolding c using w h by simp
qed

text \<open>
  Claim C8 as stated fails: without a WebGL context the effect returns
  normally, so the failure is not reported to the caller.
\<close>

theorem no_webgl_no_error:
  "\<not> webgl_available (env0\<lparr>webgl_available := False\<rparr>) \<and>
   fst (mount (env0\<lparr>webgl_available := False\<rparr>) props0 new_canvas host0) = Inr None"
  by (simp add: mount_def env0_def)

text \<open>
  Without a 2D context the effect still returns a scene, with a frame
  requested and the listener attached; the first frame then throws, and the
  listener stays attached.
\<close>

lemma no_ctx2d_deferred:
  "fst (mount (env0\<lparr>ctx2d_available := False\<rparr>) props0 new_canvas host0) =
     Inr (Some (scene0\<lparr>offCtx := False\<rparr>)) \<and>
   snd (mount (env0\<lparr>ctx2d_available := False\<rparr>) props0 new_canvas host0) = host1 \<and>
   fst (fire_frame (env0\<lparr>ctx2d_available := False\<rparr>) props0 16 (scene0\<lparr>offCtx := False\<rparr>, host1)) =
     Some (Error ''TypeError'') \<and>
   resize_listeners (snd (snd (fire_frame (env0\<lparr>ctx2d_available := False\<rparr>) props0 16
      (scene0\<lparr>offCtx := False\<rparr>, host1)))) = 1"
  by (simp add: mount_def env0_def props0_def host0_def gl0_def scene0_def host1_def
      createProgram_def createShader_def createBuffer_def createTexture_def Let_def
      resize_def requestAnimationFrame_def new_canvas_def set_width_def set_height_def
      fire_frame_def render_def)

end
